theory Spec2Isabelle
  imports Main "HOL-Library.Word"
begin

section \<open>SQL values\<close>

text \<open>
  The program is the set of SQL migrations of the bookstore: the tables, the row-level
  security policies, the role function and the registration trigger.

  A column or expression of SQL type \<open>T\<close> that may be NULL is a \<open>T option\<close>, with \<open>None\<close>
  for NULL. A UUID is a 128-bit value, TEXT is a string, a timestamp is a number of
  microseconds, DECIMAL(10,2) is a number of hundredths.
\<close>

type_synonym uuid = "128 word"
type_synonym timestamp = nat
type_synonym sql_bool = "bool option"

text \<open>SQL's three-valued connectives: NULL is the unknown truth value.\<close>

fun sql_not :: "sql_bool \<Rightarrow> sql_bool" where
  "sql_not None = None"
| "sql_not (Some b) = Some (\<not> b)"

fun sql_or :: "sql_bool \<Rightarrow> sql_bool \<Rightarrow> sql_bool" where
  "sql_or (Some True) _ = Some True"
| "sql_or _ (Some True) = Some True"
| "sql_or None _ = None"
| "sql_or _ None = None"
| "sql_or (Some False) (Some False) = Some False"

fun sql_and :: "sql_bool \<Rightarrow> sql_bool \<Rightarrow> sql_bool" where
  "sql_and (Some False) _ = Some False"
| "sql_and _ (Some False) = Some False"
| "sql_and None _ = None"
| "sql_and _ None = None"
| "sql_and (Some True) (Some True) = Some True"

text \<open>\<open>a = b\<close> in SQL: NULL as soon as one side is NULL.\<close>

fun sql_eq :: "'a option \<Rightarrow> 'a option \<Rightarrow> sql_bool" where
  "sql_eq (Some a) (Some b) = Some (a = b)"
| "sql_eq _ _ = None"

text \<open>
  A WHERE clause, a USING expression and a WITH CHECK expression keep a row only when
  the expression is true: both false and NULL reject it.
\<close>

definition is_true :: "sql_bool \<Rightarrow> bool" where
  "is_true v = (v = Some True)"

section \<open>The schema\<close>

text \<open>
  \<^verbatim>\<open>CREATE TYPE public.order_status AS ENUM
    ('pending', 'confirmed', 'shipped', 'delivered', 'cancelled');\<close>
  \<^verbatim>\<open>CREATE TYPE public.user_role AS ENUM ('customer', 'admin');\<close>
\<close>

datatype order_status = pending | confirmed | shipped | delivered | cancelled

datatype user_role = customer | admin

text \<open>The cast \<open>role::text\<close> of an enum value gives its label.\<close>

fun user_role_text :: "user_role \<Rightarrow> string" where
  "user_role_text customer = ''customer''"
| "user_role_text admin = ''admin''"

text \<open>
  A row of \<open>auth.users\<close>, the table of the identity service. The trigger reads three of
  its columns: \<open>id\<close>, \<open>email\<close> and the JSON object \<open>raw_user_meta_data\<close>, kept here as
  the list of its members with their text.
\<close>

record auth_user =
  auth_user_id :: uuid
  auth_user_email :: "string option"
  raw_user_meta_data :: "(string \<times> string) list option"

text \<open>
  \<open>public.profiles\<close>. \<open>id\<close> is the primary key; \<open>role\<close> is NOT NULL with default
  \<open>'customer'\<close>; \<open>is_blocked\<close> was added later as \<open>BOOLEAN DEFAULT FALSE\<close>, without
  NOT NULL, so it can be NULL.
\<close>

record profile =
  profile_id :: uuid
  profile_email :: string
  profile_full_name :: "string option"
  profile_phone :: "string option"
  profile_address :: "string option"
  profile_role :: user_role
  profile_is_blocked :: "bool option"
  profile_created_at :: timestamp
  profile_updated_at :: timestamp

record category =
  category_id :: uuid
  category_name :: string
  category_description :: "string option"
  category_created_at :: timestamp

record book =
  book_id :: uuid
  book_title :: string
  book_author :: string
  book_isbn :: "string option"
  book_description :: "string option"
  book_price :: int
  book_original_price :: "int option"
  book_category_id :: "uuid option"
  book_image_url :: "string option"
  book_stock_quantity :: int
  book_rating :: "int option"
  book_review_count :: "int option"
  book_is_featured :: "bool option"
  book_created_at :: timestamp
  book_updated_at :: timestamp

record cart_item =
  cart_item_id :: uuid
  cart_item_user_id :: uuid
  cart_item_book_id :: uuid
  cart_item_quantity :: int
  cart_item_created_at :: timestamp

record order_row =
  order_id :: uuid
  order_user_id :: uuid
  order_total_amount :: int
  order_status :: order_status
  order_shipping_address :: string
  order_created_at :: timestamp
  order_updated_at :: timestamp

record order_item =
  order_item_id :: uuid
  order_item_order_id :: uuid
  order_item_book_id :: uuid
  order_item_quantity :: int
  order_item_price :: int
  order_item_created_at :: timestamp

text \<open>
  The tables that policies, the role function and the trigger read or write: a table is
  the list of its rows.
\<close>

record database =
  auth_users :: "auth_user list"
  profiles :: "profile list"
  orders :: "order_row list"

section \<open>Row-level security\<close>

text \<open>
  Every table has row-level security enabled
  (\<^verbatim>\<open>ALTER TABLE ... ENABLE ROW LEVEL SECURITY\<close>). A policy is created for one command
  or for ALL, with a USING expression, a WITH CHECK expression, or both. The expressions
  are evaluated for one row, with the caller's identity \<open>auth.uid()\<close> (NULL for an
  anonymous caller) and the database at hand.
\<close>

datatype command = SELECT | INSERT | UPDATE | DELETE

datatype policy_command = FOR_ALL | FOR_SELECT | FOR_INSERT | FOR_UPDATE | FOR_DELETE

type_synonym 'r row_expr = "uuid option \<Rightarrow> database \<Rightarrow> 'r \<Rightarrow> sql_bool"

record 'r policy =
  policy_name :: string
  policy_for :: policy_command
  policy_using :: "'r row_expr option"
  policy_with_check :: "'r row_expr option"

fun applies_to :: "policy_command \<Rightarrow> command \<Rightarrow> bool" where
  "applies_to FOR_ALL c = True"
| "applies_to FOR_SELECT c = (c = SELECT)"
| "applies_to FOR_INSERT c = (c = INSERT)"
| "applies_to FOR_UPDATE c = (c = UPDATE)"
| "applies_to FOR_DELETE c = (c = DELETE)"

text \<open>
  All policies of the migrations are permissive (none is created AS RESTRICTIVE), so the
  policies of a table that apply to a command are combined with OR, and a table with no
  applicable policy admits nothing. An existing row is tested with the USING expressions.
  A new row is tested with the WITH CHECK expressions, and a policy that has only a
  USING expression uses it for new rows too.
\<close>

definition using_passes :: "'r policy \<Rightarrow> uuid option \<Rightarrow> database \<Rightarrow> 'r \<Rightarrow> bool" where
  "using_passes p uid db r =
     (case policy_using p of None \<Rightarrow> False | Some e \<Rightarrow> is_true (e uid db r))"

definition check_passes :: "'r policy \<Rightarrow> uuid option \<Rightarrow> database \<Rightarrow> 'r \<Rightarrow> bool" where
  "check_passes p uid db r =
     (case policy_with_check p of
        Some e \<Rightarrow> is_true (e uid db r)
      | None \<Rightarrow> using_passes p uid db r)"

definition using_qual ::
  "'r policy list \<Rightarrow> command \<Rightarrow> uuid option \<Rightarrow> database \<Rightarrow> 'r \<Rightarrow> bool" where
  "using_qual pols c uid db r =
     list_ex (\<lambda>p. applies_to (policy_for p) c \<and> using_passes p uid db r) pols"

definition check_qual ::
  "'r policy list \<Rightarrow> command \<Rightarrow> uuid option \<Rightarrow> database \<Rightarrow> 'r \<Rightarrow> bool" where
  "check_qual pols c uid db r =
     list_ex (\<lambda>p. applies_to (policy_for p) c \<and> check_passes p uid db r) pols"

text \<open>
  What each statement needs. SELECT tests the existing row. INSERT tests the new row,
  and with a RETURNING clause the new row must pass the SELECT policies as well. UPDATE
  tests the existing row with USING and the new row with WITH CHECK; DELETE tests the
  existing row. When an UPDATE or DELETE reads the table's columns (a WHERE or RETURNING
  clause), the rows it touches must pass the SELECT policies too. The flag \<open>reads\<close>
  says whether the statement has such a clause.
\<close>

definition select_admitted ::
  "'r policy list \<Rightarrow> uuid option \<Rightarrow> database \<Rightarrow> 'r \<Rightarrow> bool" where
  "select_admitted pols uid db r = using_qual pols SELECT uid db r"

definition insert_admitted ::
  "'r policy list \<Rightarrow> uuid option \<Rightarrow> database \<Rightarrow> bool \<Rightarrow> 'r \<Rightarrow> bool" where
  "insert_admitted pols uid db reads new =
     (check_qual pols INSERT uid db new \<and>
      (if reads then using_qual pols SELECT uid db new else True))"

definition update_admitted ::
  "'r policy list \<Rightarrow> uuid option \<Rightarrow> database \<Rightarrow> bool \<Rightarrow> 'r \<Rightarrow> 'r \<Rightarrow> bool" where
  "update_admitted pols uid db reads old new =
     (using_qual pols UPDATE uid db old \<and> check_qual pols UPDATE uid db new \<and>
      (if reads then using_qual pols SELECT uid db old \<and> using_qual pols SELECT uid db new
       else True))"

definition delete_admitted ::
  "'r policy list \<Rightarrow> uuid option \<Rightarrow> database \<Rightarrow> bool \<Rightarrow> 'r \<Rightarrow> bool" where
  "delete_admitted pols uid db reads old =
     (using_qual pols DELETE uid db old \<and>
      (if reads then using_qual pols SELECT uid db old else True))"

section \<open>The role function\<close>

text \<open>
  \<^verbatim>\<open>CREATE OR REPLACE FUNCTION public.get_current_user_role()
  RETURNS TEXT AS $$
    SELECT role::text FROM public.profiles WHERE id = auth.uid();
  $$ LANGUAGE SQL SECURITY DEFINER STABLE;\<close>

  The function runs with its owner's rights, so it reads the whole table, past the
  policies of \<open>profiles\<close>. An SQL function returns the first row of its query, and NULL
  when the query has no row.
\<close>

definition get_current_user_role :: "uuid option \<Rightarrow> database \<Rightarrow> string option" where
  "get_current_user_role uid db =
     (case filter (\<lambda>r. is_true (sql_eq (Some (profile_id r)) uid)) (profiles db) of
        [] \<Rightarrow> None
      | r # _ \<Rightarrow> Some (user_role_text (profile_role r)))"

text \<open>The test \<^verbatim>\<open>public.get_current_user_role() = 'admin'\<close> of the admin policies.\<close>

definition role_is_admin :: "uuid option \<Rightarrow> database \<Rightarrow> sql_bool" where
  "role_is_admin uid db = sql_eq (get_current_user_role uid db) (Some ''admin'')"

section \<open>Policies on orders\<close>

text \<open>
  \<^verbatim>\<open>CREATE POLICY "Users can view their own orders" ON public.orders
    FOR SELECT USING (auth.uid() = user_id);\<close>
\<close>

definition users_can_view_their_own_orders :: "order_row policy" where
  "users_can_view_their_own_orders =
     \<lparr>policy_name = ''Users can view their own orders'', policy_for = FOR_SELECT,
      policy_using = Some (\<lambda>uid db r. sql_eq uid (Some (order_user_id r))),
      policy_with_check = None\<rparr>"

text \<open>
  \<^verbatim>\<open>CREATE POLICY "Users can create their own orders" ON public.orders
    FOR INSERT WITH CHECK (auth.uid() = user_id);\<close>
\<close>

definition users_can_create_their_own_orders :: "order_row policy" where
  "users_can_create_their_own_orders =
     \<lparr>policy_name = ''Users can create their own orders'', policy_for = FOR_INSERT,
      policy_using = None,
      policy_with_check = Some (\<lambda>uid db r. sql_eq uid (Some (order_user_id r)))\<rparr>"

text \<open>
  The first migration wrote the admin policies with a sub-select on \<open>profiles\<close>; a later
  one drops these six policies and creates them again on the role function:
  \<^verbatim>\<open>CREATE POLICY "Admins can view all orders" ON public.orders
    FOR SELECT USING (public.get_current_user_role() = 'admin');\<close>
  \<^verbatim>\<open>CREATE POLICY "Admins can update orders" ON public.orders
    FOR UPDATE USING (public.get_current_user_role() = 'admin');\<close>
\<close>

definition admins_can_view_all_orders :: "order_row policy" where
  "admins_can_view_all_orders =
     \<lparr>policy_name = ''Admins can view all orders'', policy_for = FOR_SELECT,
      policy_using = Some (\<lambda>uid db r. role_is_admin uid db),
      policy_with_check = None\<rparr>"

definition admins_can_update_orders :: "order_row policy" where
  "admins_can_update_orders =
     \<lparr>policy_name = ''Admins can update orders'', policy_for = FOR_UPDATE,
      policy_using = Some (\<lambda>uid db r. role_is_admin uid db),
      policy_with_check = None\<rparr>"

definition orders_policies :: "order_row policy list" where
  "orders_policies =
     [users_can_view_their_own_orders, users_can_create_their_own_orders,
      admins_can_view_all_orders, admins_can_update_orders]"

section \<open>Policies on profiles\<close>

text \<open>
  \<^verbatim>\<open>CREATE POLICY "Users can view their own profile" ON public.profiles
    FOR SELECT USING (auth.uid() = id);\<close>
  \<^verbatim>\<open>CREATE POLICY "Users can update their own profile" ON public.profiles
    FOR UPDATE USING (auth.uid() = id);\<close>
  \<^verbatim>\<open>CREATE POLICY "Admins can view all profiles" ON public.profiles
    FOR SELECT USING (public.get_current_user_role() = 'admin');\<close>
\<close>

definition users_can_view_their_own_profile :: "profile policy" where
  "users_can_view_their_own_profile =
     \<lparr>policy_name = ''Users can view their own profile'', policy_for = FOR_SELECT,
      policy_using = Some (\<lambda>uid db r. sql_eq uid (Some (profile_id r))),
      policy_with_check = None\<rparr>"

definition users_can_update_their_own_profile :: "profile policy" where
  "users_can_update_their_own_profile =
     \<lparr>policy_name = ''Users can update their own profile'', policy_for = FOR_UPDATE,
      policy_using = Some (\<lambda>uid db r. sql_eq uid (Some (profile_id r))),
      policy_with_check = None\<rparr>"

definition admins_can_view_all_profiles :: "profile policy" where
  "admins_can_view_all_profiles =
     \<lparr>policy_name = ''Admins can view all profiles'', policy_for = FOR_SELECT,
      policy_using = Some (\<lambda>uid db r. role_is_admin uid db),
      policy_with_check = None\<rparr>"

text \<open>
  \<^verbatim>\<open>CREATE POLICY "Blocked users cannot access data" ON public.profiles
  FOR ALL USING (NOT is_blocked OR auth.uid() = id OR get_current_user_role() = 'admin');\<close>

  Two migrations hold this statement, the later one guarded by a test that the policy is
  not there yet. The policy is created without AS RESTRICTIVE, so it is permissive like
  the others, and it is one more disjunct of every command on \<open>profiles\<close>. \<open>is_blocked\<close>
  is the column of the row under test, not of the caller's row.
\<close>

definition blocked_users_cannot_access_data :: "profile policy" where
  "blocked_users_cannot_access_data =
     \<lparr>policy_name = ''Blocked users cannot access data'', policy_for = FOR_ALL,
      policy_using = Some (\<lambda>uid db r.
        sql_or (sql_or (sql_not (profile_is_blocked r)) (sql_eq uid (Some (profile_id r))))
          (role_is_admin uid db)),
      policy_with_check = None\<rparr>"

definition profiles_policies :: "profile policy list" where
  "profiles_policies =
     [users_can_view_their_own_profile, users_can_update_their_own_profile,
      admins_can_view_all_profiles, blocked_users_cannot_access_data]"

section \<open>Policies on categories and books\<close>

text \<open>
  \<^verbatim>\<open>CREATE POLICY "Anyone can view categories" ON public.categories
    FOR SELECT USING (true);\<close>
  \<^verbatim>\<open>CREATE POLICY "Admins can manage categories" ON public.categories
    FOR ALL USING (public.get_current_user_role() = 'admin');\<close>
\<close>

definition anyone_can_view_categories :: "category policy" where
  "anyone_can_view_categories =
     \<lparr>policy_name = ''Anyone can view categories'', policy_for = FOR_SELECT,
      policy_using = Some (\<lambda>uid db r. Some True),
      policy_with_check = None\<rparr>"

definition admins_can_manage_categories :: "category policy" where
  "admins_can_manage_categories =
     \<lparr>policy_name = ''Admins can manage categories'', policy_for = FOR_ALL,
      policy_using = Some (\<lambda>uid db r. role_is_admin uid db),
      policy_with_check = None\<rparr>"

definition categories_policies :: "category policy list" where
  "categories_policies = [anyone_can_view_categories, admins_can_manage_categories]"

text \<open>
  \<^verbatim>\<open>CREATE POLICY "Anyone can view books" ON public.books
    FOR SELECT USING (true);\<close>
  \<^verbatim>\<open>CREATE POLICY "Admins can manage books" ON public.books
    FOR ALL USING (public.get_current_user_role() = 'admin');\<close>
\<close>

definition anyone_can_view_books :: "book policy" where
  "anyone_can_view_books =
     \<lparr>policy_name = ''Anyone can view books'', policy_for = FOR_SELECT,
      policy_using = Some (\<lambda>uid db r. Some True),
      policy_with_check = None\<rparr>"

definition admins_can_manage_books :: "book policy" where
  "admins_can_manage_books =
     \<lparr>policy_name = ''Admins can manage books'', policy_for = FOR_ALL,
      policy_using = Some (\<lambda>uid db r. role_is_admin uid db),
      policy_with_check = None\<rparr>"

definition books_policies :: "book policy list" where
  "books_policies = [anyone_can_view_books, admins_can_manage_books]"

section \<open>Policies on cart items\<close>

text \<open>
  \<^verbatim>\<open>CREATE POLICY "Users can manage their own cart" ON public.cart_items
    FOR ALL USING (auth.uid() = user_id);\<close>
\<close>

definition users_can_manage_their_own_cart :: "cart_item policy" where
  "users_can_manage_their_own_cart =
     \<lparr>policy_name = ''Users can manage their own cart'', policy_for = FOR_ALL,
      policy_using = Some (\<lambda>uid db r. sql_eq uid (Some (cart_item_user_id r))),
      policy_with_check = None\<rparr>"

definition cart_items_policies :: "cart_item policy list" where
  "cart_items_policies = [users_can_manage_their_own_cart]"

section \<open>Policies on order items\<close>

text \<open>
  The sub-select of the two ownership policies:
  \<^verbatim>\<open>EXISTS (
    SELECT 1 FROM public.orders
    WHERE id = order_id AND user_id = auth.uid()
  )\<close>
  \<open>id\<close> and \<open>user_id\<close> are columns of \<open>orders\<close>; \<open>order_id\<close>, which \<open>orders\<close> does not
  have, is the column of the order item under test. The sub-select runs with the caller's
  rights, so it sees the rows of \<open>orders\<close> that the SELECT policies of \<open>orders\<close> let
  the caller see. EXISTS is never NULL.
\<close>

definition exists_own_parent_order :: "order_item row_expr" where
  "exists_own_parent_order uid db item =
     Some (list_ex
       (\<lambda>parent. is_true
          (sql_and (sql_eq (Some (order_id parent)) (Some (order_item_order_id item)))
                   (sql_eq (Some (order_user_id parent)) uid)))
       (filter (select_admitted orders_policies uid db) (orders db)))"

text \<open>
  \<^verbatim>\<open>CREATE POLICY "Users can view their own order items" ON public.order_items
    FOR SELECT USING (EXISTS (...));\<close>
  \<^verbatim>\<open>CREATE POLICY "Users can create order items for their orders" ON public.order_items
    FOR INSERT WITH CHECK (EXISTS (...));\<close>
  \<^verbatim>\<open>CREATE POLICY "Admins can view all order items" ON public.order_items
    FOR SELECT USING (public.get_current_user_role() = 'admin');\<close>
\<close>

definition users_can_view_their_own_order_items :: "order_item policy" where
  "users_can_view_their_own_order_items =
     \<lparr>policy_name = ''Users can view their own order items'', policy_for = FOR_SELECT,
      policy_using = Some exists_own_parent_order,
      policy_with_check = None\<rparr>"

definition users_can_create_order_items_for_their_orders :: "order_item policy" where
  "users_can_create_order_items_for_their_orders =
     \<lparr>policy_name = ''Users can create order items for their orders'',
      policy_for = FOR_INSERT,
      policy_using = None,
      policy_with_check = Some exists_own_parent_order\<rparr>"

definition admins_can_view_all_order_items :: "order_item policy" where
  "admins_can_view_all_order_items =
     \<lparr>policy_name = ''Admins can view all order items'', policy_for = FOR_SELECT,
      policy_using = Some (\<lambda>uid db r. role_is_admin uid db),
      policy_with_check = None\<rparr>"

definition order_items_policies :: "order_item policy list" where
  "order_items_policies =
     [users_can_view_their_own_order_items, users_can_create_order_items_for_their_orders,
      admins_can_view_all_order_items]"

section \<open>The registration trigger\<close>

text \<open>
  The errors a statement on \<open>profiles\<close> or \<open>auth.users\<close> can raise: a second row with the
  same primary key, a \<open>profiles.id\<close> with no row in \<open>auth.users\<close>, a NULL in a NOT NULL
  column.
\<close>

datatype sql_error = unique_violation | foreign_key_violation | not_null_violation

text \<open>\<open>obj->>'key'\<close>: the member's text, NULL when the object is NULL or has no such member.\<close>

definition json_get_text :: "(string \<times> string) list option \<Rightarrow> string \<Rightarrow> string option" where
  "json_get_text obj k = (case obj of None \<Rightarrow> None | Some kvs \<Rightarrow> map_of kvs k)"

fun coalesce :: "'a option \<Rightarrow> 'a \<Rightarrow> 'a" where
  "coalesce None d = d"
| "coalesce (Some v) d = v"

text \<open>
  An INSERT into \<open>profiles\<close> by the table's owner, past the policies: the constraints
  of the table decide.
  \<^verbatim>\<open>id UUID NOT NULL REFERENCES auth.users(id) ON DELETE CASCADE PRIMARY KEY\<close>
\<close>

definition profiles_insert :: "profile \<Rightarrow> database \<Rightarrow> sql_error + database" where
  "profiles_insert p db =
     (if profile_id p \<in> set (map profile_id (profiles db)) then Inl unique_violation
      else if profile_id p \<notin> set (map auth_user_id (auth_users db))
        then Inl foreign_key_violation
      else Inr (db\<lparr>profiles := profiles db @ [p]\<rparr>))"

text \<open>
  \<^verbatim>\<open>CREATE OR REPLACE FUNCTION public.handle_new_user()
  RETURNS TRIGGER AS $$
  BEGIN
    INSERT INTO public.profiles (id, email, full_name)
    VALUES (
      new.id,
      new.email,
      COALESCE(new.raw_user_meta_data->>'full_name', '')
    );
    RETURN new;
  END;
  $$ LANGUAGE plpgsql SECURITY DEFINER;\<close>

  The INSERT has no ON CONFLICT clause. The columns it does not name take their
  defaults: \<open>role\<close> is \<open>'customer'\<close>, \<open>is_blocked\<close> is FALSE, the two timestamps are
  \<open>now()\<close>, \<open>phone\<close> and \<open>address\<close> are NULL. \<open>email\<close> is NOT NULL in \<open>profiles\<close>.
\<close>

definition handle_new_user :: "timestamp \<Rightarrow> auth_user \<Rightarrow> database \<Rightarrow> sql_error + database" where
  "handle_new_user now new db =
     (case auth_user_email new of
        None \<Rightarrow> Inl not_null_violation
      | Some e \<Rightarrow>
          profiles_insert
            \<lparr>profile_id = auth_user_id new, profile_email = e,
             profile_full_name =
               Some (coalesce (json_get_text (raw_user_meta_data new) ''full_name'') []),
             profile_phone = None, profile_address = None, profile_role = customer,
             profile_is_blocked = Some False,
             profile_created_at = now, profile_updated_at = now\<rparr>
            db)"

text \<open>
  The admin seed, for comparison, does carry a conflict clause: a row with the same \<open>id\<close>
  makes the statement do nothing, without an error.
  \<^verbatim>\<open>CREATE OR REPLACE FUNCTION create_admin_user() ...
    INSERT INTO public.profiles (id, email, full_name, role)
    VALUES ('00000000-0000-0000-0000-000000000001', 'admin@admin.com', 'Admin User', 'admin')
    ON CONFLICT (id) DO NOTHING;\<close>
\<close>

definition profiles_insert_on_conflict_do_nothing ::
  "profile \<Rightarrow> database \<Rightarrow> sql_error + database" where
  "profiles_insert_on_conflict_do_nothing p db =
     (if profile_id p \<in> set (map profile_id (profiles db)) then Inr db
      else profiles_insert p db)"

definition create_admin_user :: "timestamp \<Rightarrow> database \<Rightarrow> sql_error + database" where
  "create_admin_user now db =
     profiles_insert_on_conflict_do_nothing
       \<lparr>profile_id = 1, profile_email = ''admin@admin.com'',
        profile_full_name = Some ''Admin User'',
        profile_phone = None, profile_address = None, profile_role = admin,
        profile_is_blocked = Some False,
        profile_created_at = now, profile_updated_at = now\<rparr>
       db"

text \<open>
  \<^verbatim>\<open>CREATE TRIGGER on_auth_user_created
    AFTER INSERT ON auth.users
    FOR EACH ROW EXECUTE FUNCTION public.handle_new_user();\<close>

  An insert into \<open>auth.users\<close> fires the trigger on the new row; an error in the trigger
  aborts the insert, and the database stays as it was.
\<close>

definition on_auth_user_created :: "timestamp \<Rightarrow> auth_user \<Rightarrow> database \<Rightarrow> sql_error + database" where
  "on_auth_user_created now new db =
     (if auth_user_id new \<in> set (map auth_user_id (auth_users db)) then Inl unique_violation
      else handle_new_user now new (db\<lparr>auth_users := auth_users db @ [new]\<rparr>))"

section \<open>Facts about the policy engine\<close>

lemmas policy_defs =
  users_can_view_their_own_orders_def users_can_create_their_own_orders_def
  admins_can_view_all_orders_def admins_can_update_orders_def orders_policies_def
  users_can_view_their_own_profile_def users_can_update_their_own_profile_def
  admins_can_view_all_profiles_def blocked_users_cannot_access_data_def
  profiles_policies_def
  anyone_can_view_categories_def admins_can_manage_categories_def categories_policies_def
  anyone_can_view_books_def admins_can_manage_books_def books_policies_def
  users_can_manage_their_own_cart_def cart_items_policies_def
  users_can_view_their_own_order_items_def
  users_can_create_order_items_for_their_orders_def
  admins_can_view_all_order_items_def order_items_policies_def

lemmas admitted_defs =
  select_admitted_def insert_admitted_def update_admitted_def delete_admitted_def
  check_passes_def using_passes_def

lemma is_true_Some [simp]: "is_true (Some b) = b"
  by (simp add: is_true_def)

lemma is_true_None [simp]: "is_true None = False"
  by (simp add: is_true_def)

lemma is_true_sql_eq_left [simp]: "is_true (sql_eq uid (Some x)) = (uid = Some x)"
  by (cases uid) auto

lemma is_true_sql_eq_right [simp]: "is_true (sql_eq (Some x) uid) = (uid = Some x)"
  by (cases uid) auto

lemma is_true_sql_or [simp]: "is_true (sql_or a b) = (is_true a \<or> is_true b)"
  by (cases "(a, b)" rule: sql_or.cases) auto

lemma is_true_sql_and [simp]: "is_true (sql_and a b) = (is_true a \<and> is_true b)"
  by (cases "(a, b)" rule: sql_and.cases) auto

lemma is_true_sql_not [simp]: "is_true (sql_not a) = (a = Some False)"
  by (cases a) auto

lemma using_qual_Cons [simp]:
  "using_qual (p # ps) c uid db r =
     ((applies_to (policy_for p) c \<and> using_passes p uid db r) \<or> using_qual ps c uid db r)"
  by (simp add: using_qual_def)

lemma using_qual_Nil [simp]: "using_qual [] c uid db r = False"
  by (simp add: using_qual_def)

lemma check_qual_Cons [simp]:
  "check_qual (p # ps) c uid db r =
     ((applies_to (policy_for p) c \<and> check_passes p uid db r) \<or> check_qual ps c uid db r)"
  by (simp add: check_qual_def)

lemma check_qual_Nil [simp]: "check_qual [] c uid db r = False"
  by (simp add: check_qual_def)

lemma filter_starts_with_found:
  "find P xs = Some p \<Longrightarrow> \<exists>rest. filter P xs = p # rest"
  by (induction xs) (auto split: if_splits)

section \<open>The role function\<close>

text \<open>The admin test is true exactly when the role function returns \<open>'admin'\<close>.\<close>

lemma is_true_role_is_admin:
  "is_true (role_is_admin uid db) = (get_current_user_role uid db = Some ''admin'')"
  by (cases "get_current_user_role uid db") (simp_all add: role_is_admin_def)

lemma get_current_user_role_no_row:
  assumes "\<forall>r\<in>set (profiles db). uid \<noteq> Some (profile_id r)"
  shows "get_current_user_role uid db = None"
proof -
  have "filter (\<lambda>r. is_true (sql_eq (Some (profile_id r)) uid)) (profiles db) = []"
    using assms by (auto simp: filter_empty_conv)
  then show ?thesis
    by (simp add: get_current_user_role_def)
qed

lemma get_current_user_role_anonymous: "get_current_user_role None db = None"
  by (rule get_current_user_role_no_row) simp

text \<open>
  With a profile row for the caller, the function returns the role of the first such row
  (the primary key leaves one at most).
\<close>

lemma get_current_user_role_row:
  assumes "find (\<lambda>r. profile_id r = u) (profiles db) = Some p"
  shows "get_current_user_role (Some u) db = Some (user_role_text (profile_role p))"
proof -
  have "filter (\<lambda>r. is_true (sql_eq (Some (profile_id r)) (Some u))) (profiles db)
        = filter (\<lambda>r. profile_id r = u) (profiles db)"
    by (rule filter_cong) auto
  moreover have "\<exists>rest. filter (\<lambda>r. profile_id r = u) (profiles db) = p # rest"
    using assms by (rule filter_starts_with_found)
  ultimately show ?thesis
    by (auto simp: get_current_user_role_def)
qed

text \<open>So the admin test holds exactly for a caller whose profile row has the role admin.\<close>

lemma admin_iff_admin_row:
  "(get_current_user_role uid db = Some ''admin'') =
     (\<exists>u p. uid = Some u \<and> find (\<lambda>r. profile_id r = u) (profiles db) = Some p \<and>
            profile_role p = admin)"
proof (cases uid)
  case None
  then show ?thesis
    by (simp add: get_current_user_role_anonymous)
next
  case (Some u)
  show ?thesis
  proof (cases "find (\<lambda>r. profile_id r = u) (profiles db)")
    case None
    then have "\<forall>r\<in>set (profiles db). uid \<noteq> Some (profile_id r)"
      using Some by (auto simp: find_None_iff)
    then have "get_current_user_role uid db = None"
      by (rule get_current_user_role_no_row)
    with None Some show ?thesis
      by simp
  next
    case (Some p)
    have "get_current_user_role (Some u) db = Some (user_role_text (profile_role p))"
      using Some by (rule get_current_user_role_row)
    with Some \<open>uid = Some u\<close> show ?thesis
      by (cases "profile_role p") auto
  qed
qed

section \<open>What the policies of each table admit\<close>

lemma orders_select_iff:
  "select_admitted orders_policies uid db r =
     (uid = Some (order_user_id r) \<or> get_current_user_role uid db = Some ''admin'')"
  by (auto simp: admitted_defs policy_defs is_true_role_is_admin)

lemma profiles_select_iff:
  "select_admitted profiles_policies uid db r =
     (uid = Some (profile_id r) \<or> get_current_user_role uid db = Some ''admin'' \<or>
      profile_is_blocked r = Some False)"
  by (auto simp: admitted_defs policy_defs is_true_role_is_admin)

lemma profiles_update_iff:
  "update_admitted profiles_policies uid db reads old new =
     ((uid = Some (profile_id old) \<or> get_current_user_role uid db = Some ''admin'' \<or>
       profile_is_blocked old = Some False) \<and>
      (uid = Some (profile_id new) \<or> get_current_user_role uid db = Some ''admin'' \<or>
       profile_is_blocked new = Some False))"
  by (cases reads) (auto simp: admitted_defs policy_defs is_true_role_is_admin)

lemma books_select: "select_admitted books_policies uid db r"
  by (simp add: admitted_defs policy_defs)

lemma categories_select: "select_admitted categories_policies uid db r"
  by (simp add: admitted_defs policy_defs)

text \<open>
  The sub-select on \<open>orders\<close> looks for an order of the caller, and the caller sees the
  own orders, so the SELECT policies of \<open>orders\<close> hide nothing from it.
\<close>

lemma exists_own_parent_order_iff:
  "is_true (exists_own_parent_order uid db item) =
     (\<exists>parent \<in> set (orders db).
        order_id parent = order_item_order_id item \<and> uid = Some (order_user_id parent))"
  by (auto simp: exists_own_parent_order_def list_ex_iff orders_select_iff)

text \<open>
  \<open>orders.id\<close> is the primary key, so the referenced order is the one row \<open>find\<close>
  returns, and "the caller owns it" speaks of that row.
\<close>

lemma own_parent_order_unique:
  assumes "distinct (map order_id (orders db))"
  shows "(\<exists>parent \<in> set (orders db). order_id parent = k \<and> uid = Some (order_user_id parent))
       = (\<exists>parent. find (\<lambda>x. order_id x = k) (orders db) = Some parent \<and>
                   uid = Some (order_user_id parent))"
proof
  assume "\<exists>parent \<in> set (orders db). order_id parent = k \<and> uid = Some (order_user_id parent)"
  then obtain parent where p: "parent \<in> set (orders db)" "order_id parent = k"
      "uid = Some (order_user_id parent)"
    by blast
  have "find (\<lambda>x. order_id x = k) xs = Some parent"
    if "distinct (map order_id xs)" "parent \<in> set xs" for xs
    using that p(2) by (induction xs) (auto simp: image_iff)
  with assms p show "\<exists>parent. find (\<lambda>x. order_id x = k) (orders db) = Some parent \<and>
      uid = Some (order_user_id parent)"
    by blast
next
  assume "\<exists>parent. find (\<lambda>x. order_id x = k) (orders db) = Some parent \<and>
      uid = Some (order_user_id parent)"
  then show "\<exists>parent \<in> set (orders db). order_id parent = k \<and> uid = Some (order_user_id parent)"
    by (auto simp: find_Some_iff)
qed

section \<open>Profiles\<close>

text \<open>
  A principal reads the own profile row and updates it, whatever \<open>is_blocked\<close> says, as
  long as the update leaves \<open>id\<close> alone.
\<close>

lemma profile_self_select: "select_admitted profiles_policies (Some (profile_id r)) db r"
  by (simp add: profiles_select_iff)

lemma profile_self_update:
  "profile_id new = profile_id old \<Longrightarrow>
   update_admitted profiles_policies (Some (profile_id old)) db reads old new"
  by (simp add: profiles_update_iff)

text \<open>
  For a caller who is neither the row's principal nor an admin, \<open>is_blocked\<close> of the row
  decides alone; what the caller's own row says about the caller plays no part.
\<close>

lemma other_profile_select_iff:
  assumes "uid \<noteq> Some (profile_id r)" and "get_current_user_role uid db \<noteq> Some ''admin''"
  shows "select_admitted profiles_policies uid db r = (profile_is_blocked r = Some False)"
  using assms by (simp add: profiles_select_iff)

lemma anonymous_profile_select_iff:
  "select_admitted profiles_policies None db r = (profile_is_blocked r = Some False)"
  by (simp add: profiles_select_iff get_current_user_role_anonymous)

text \<open>
  C1. The claim's first two parts hold (lemmas \<open>profile_self_select\<close> and
  \<open>profile_self_update\<close>). Its last part fails on the policies as written. The
  principal with id 2 is a blocked customer; the row read is that of the seeded admin
  (id \<open>00000000-0000-0000-0000-000000000001\<close>, not blocked). The read is admitted: the
  disjunct \<open>NOT is_blocked\<close> of the policy "Blocked users cannot access data" is true for
  the row, whoever the caller is.
\<close>

theorem blocked_customer_reads_other_profile:
  "select_admitted profiles_policies (Some 2)
     \<lparr>auth_users =
        [\<lparr>auth_user_id = 1, auth_user_email = Some ''admin@admin.com'',
          raw_user_meta_data = Some [(''full_name'', ''Admin User'')]\<rparr>,
         \<lparr>auth_user_id = 2, auth_user_email = Some ''blocked@example.com'',
          raw_user_meta_data = Some [(''full_name'', ''Blocked Reader'')]\<rparr>],
      profiles =
        [\<lparr>profile_id = 1, profile_email = ''admin@admin.com'',
          profile_full_name = Some ''Admin User'', profile_phone = None, profile_address = None,
          profile_role = admin, profile_is_blocked = Some False,
          profile_created_at = 0, profile_updated_at = 0\<rparr>,
         \<lparr>profile_id = 2, profile_email = ''blocked@example.com'',
          profile_full_name = Some ''Blocked Reader'', profile_phone = None, profile_address = None,
          profile_role = customer, profile_is_blocked = Some True,
          profile_created_at = 1, profile_updated_at = 1\<rparr>],
      orders =
        []\<rparr>
     \<lparr>profile_id = 1, profile_email = ''admin@admin.com'',
      profile_full_name = Some ''Admin User'', profile_phone = None, profile_address = None,
      profile_role = admin, profile_is_blocked = Some False,
      profile_created_at = 0, profile_updated_at = 0\<rparr>"
  by (simp add: admitted_defs policy_defs)

text \<open>
  C2. Anyone, an anonymous caller too, reads every book and every category (lemmas
  \<open>books_select\<close> and \<open>categories_select\<close>). The claim's other half fails: an anonymous
  caller reads the seeded admin's profile row, which is not blocked.
\<close>

theorem anonymous_reads_profile:
  "select_admitted profiles_policies None
     \<lparr>auth_users =
        [\<lparr>auth_user_id = 1, auth_user_email = Some ''admin@admin.com'',
          raw_user_meta_data = Some [(''full_name'', ''Admin User'')]\<rparr>],
      profiles =
        [\<lparr>profile_id = 1, profile_email = ''admin@admin.com'',
          profile_full_name = Some ''Admin User'', profile_phone = None, profile_address = None,
          profile_role = admin, profile_is_blocked = Some False,
          profile_created_at = 0, profile_updated_at = 0\<rparr>],
      orders =
        []\<rparr>
     \<lparr>profile_id = 1, profile_email = ''admin@admin.com'',
      profile_full_name = Some ''Admin User'', profile_phone = None, profile_address = None,
      profile_role = admin, profile_is_blocked = Some False,
      profile_created_at = 0, profile_updated_at = 0\<rparr>"
  by (simp add: admitted_defs policy_defs)

text \<open>
  C4. The policy "Users can update their own profile" passes a row exactly when the
  caller's identity is the row's \<open>id\<close>; no other column enters the test. So the
  policies of \<open>profiles\<close> admit every update of the own row that keeps \<open>id\<close>, whatever
  it writes into the other columns, \<open>role\<close> and \<open>is_blocked\<close> included.
\<close>

theorem profile_self_update_any_columns:
  assumes "uid = Some (profile_id old)" and "profile_id new = profile_id old"
  shows "using_passes users_can_update_their_own_profile uid db old \<and>
         check_passes users_can_update_their_own_profile uid db new \<and>
         update_admitted profiles_policies uid db reads old new \<and>
         update_admitted profiles_policies uid db reads old
           (old\<lparr>profile_role := rl, profile_is_blocked := bl\<rparr>)"
  using assms
  by (simp add: profiles_update_iff)
     (simp add: admitted_defs users_can_update_their_own_profile_def)

theorem profile_self_update_any_columns_witness:
  "update_admitted profiles_policies (Some 2)
     \<lparr>auth_users =
        [\<lparr>auth_user_id = 1, auth_user_email = Some ''admin@admin.com'',
          raw_user_meta_data = Some [(''full_name'', ''Admin User'')]\<rparr>,
         \<lparr>auth_user_id = 2, auth_user_email = Some ''blocked@example.com'',
          raw_user_meta_data = Some [(''full_name'', ''Blocked Reader'')]\<rparr>],
      profiles =
        [\<lparr>profile_id = 1, profile_email = ''admin@admin.com'',
          profile_full_name = Some ''Admin User'', profile_phone = None, profile_address = None,
          profile_role = admin, profile_is_blocked = Some False,
          profile_created_at = 0, profile_updated_at = 0\<rparr>,
         \<lparr>profile_id = 2, profile_email = ''blocked@example.com'',
          profile_full_name = Some ''Blocked Reader'', profile_phone = None, profile_address = None,
          profile_role = customer, profile_is_blocked = Some True,
          profile_created_at = 1, profile_updated_at = 1\<rparr>],
      orders =
        []\<rparr>
     True
     \<lparr>profile_id = 2, profile_email = ''blocked@example.com'',
      profile_full_name = Some ''Blocked Reader'', profile_phone = None, profile_address = None,
      profile_role = customer, profile_is_blocked = Some True,
      profile_created_at = 1, profile_updated_at = 1\<rparr>
     \<lparr>profile_id = 2, profile_email = ''blocked@example.com'',
      profile_full_name = Some ''Blocked Reader'', profile_phone = None, profile_address = None,
      profile_role = admin, profile_is_blocked = Some False,
      profile_created_at = 1, profile_updated_at = 1\<rparr>"
  using profile_self_update_any_columns
    [of "Some 2"
        "\<lparr>profile_id = 2, profile_email = ''blocked@example.com'',
          profile_full_name = Some ''Blocked Reader'', profile_phone = None, profile_address = None,
          profile_role = customer, profile_is_blocked = Some True,
          profile_created_at = 1, profile_updated_at = 1\<rparr>"
        "\<lparr>profile_id = 2, profile_email = ''blocked@example.com'',
          profile_full_name = Some ''Blocked Reader'', profile_phone = None, profile_address = None,
          profile_role = admin, profile_is_blocked = Some False,
          profile_created_at = 1, profile_updated_at = 1\<rparr>"]
  by simp

section \<open>Orders\<close>

text \<open>
  C5. An insert into \<open>orders\<close> is admitted exactly when the new row's \<open>user_id\<close> is the
  caller's identity, with or without a RETURNING clause; a row that names any other
  identity is refused, also for an anonymous caller and for an admin.
\<close>

theorem order_insert_iff_owner:
  "insert_admitted orders_policies uid db reads new = (uid = Some (order_user_id new))"
  by (cases reads) (auto simp: admitted_defs policy_defs)

theorem order_insert_iff_owner_witness:
  "insert_admitted orders_policies (Some 7)
     \<lparr>auth_users =
        [\<lparr>auth_user_id = 1, auth_user_email = Some ''admin@admin.com'',
          raw_user_meta_data = Some [(''full_name'', ''Admin User'')]\<rparr>,
         \<lparr>auth_user_id = 7, auth_user_email = Some ''reader@example.com'',
          raw_user_meta_data = Some [(''full_name'', ''Reader'')]\<rparr>,
         \<lparr>auth_user_id = 8, auth_user_email = Some ''other@example.com'',
          raw_user_meta_data = Some [(''full_name'', ''Other'')]\<rparr>],
      profiles =
        [\<lparr>profile_id = 1, profile_email = ''admin@admin.com'',
          profile_full_name = Some ''Admin User'', profile_phone = None, profile_address = None,
          profile_role = admin, profile_is_blocked = Some False,
          profile_created_at = 0, profile_updated_at = 0\<rparr>,
         \<lparr>profile_id = 7, profile_email = ''reader@example.com'',
          profile_full_name = Some ''Reader'', profile_phone = None, profile_address = None,
          profile_role = customer, profile_is_blocked = Some False,
          profile_created_at = 2, profile_updated_at = 2\<rparr>,
         \<lparr>profile_id = 8, profile_email = ''other@example.com'',
          profile_full_name = Some ''Other'', profile_phone = None, profile_address = None,
          profile_role = customer, profile_is_blocked = Some False,
          profile_created_at = 3, profile_updated_at = 3\<rparr>],
      orders =
        [\<lparr>order_id = 1, order_user_id = 7, order_total_amount = 1999,
          order_status = confirmed, order_shipping_address = ''1 Main St'',
          order_created_at = 5, order_updated_at = 5\<rparr>]\<rparr>
     True
     \<lparr>order_id = 1, order_user_id = 7, order_total_amount = 1999,
      order_status = confirmed, order_shipping_address = ''1 Main St'',
      order_created_at = 5, order_updated_at = 5\<rparr>
   \<and> \<not> insert_admitted orders_policies (Some 8)
     \<lparr>auth_users =
        [\<lparr>auth_user_id = 1, auth_user_email = Some ''admin@admin.com'',
          raw_user_meta_data = Some [(''full_name'', ''Admin User'')]\<rparr>,
         \<lparr>auth_user_id = 7, auth_user_email = Some ''reader@example.com'',
          raw_user_meta_data = Some [(''full_name'', ''Reader'')]\<rparr>,
         \<lparr>auth_user_id = 8, auth_user_email = Some ''other@example.com'',
          raw_user_meta_data = Some [(''full_name'', ''Other'')]\<rparr>],
      profiles =
        [\<lparr>profile_id = 1, profile_email = ''admin@admin.com'',
          profile_full_name = Some ''Admin User'', profile_phone = None, profile_address = None,
          profile_role = admin, profile_is_blocked = Some False,
          profile_created_at = 0, profile_updated_at = 0\<rparr>,
         \<lparr>profile_id = 7, profile_email = ''reader@example.com'',
          profile_full_name = Some ''Reader'', profile_phone = None, profile_address = None,
          profile_role = customer, profile_is_blocked = Some False,
          profile_created_at = 2, profile_updated_at = 2\<rparr>,
         \<lparr>profile_id = 8, profile_email = ''other@example.com'',
          profile_full_name = Some ''Other'', profile_phone = None, profile_address = None,
          profile_role = customer, profile_is_blocked = Some False,
          profile_created_at = 3, profile_updated_at = 3\<rparr>],
      orders =
        [\<lparr>order_id = 1, order_user_id = 7, order_total_amount = 1999,
          order_status = confirmed, order_shipping_address = ''1 Main St'',
          order_created_at = 5, order_updated_at = 5\<rparr>]\<rparr>
     True
     \<lparr>order_id = 1, order_user_id = 7, order_total_amount = 1999,
      order_status = confirmed, order_shipping_address = ''1 Main St'',
      order_created_at = 5, order_updated_at = 5\<rparr>
   \<and> \<not> insert_admitted orders_policies (Some 1)
     \<lparr>auth_users =
        [\<lparr>auth_user_id = 1, auth_user_email = Some ''admin@admin.com'',
          raw_user_meta_data = Some [(''full_name'', ''Admin User'')]\<rparr>,
         \<lparr>auth_user_id = 7, auth_user_email = Some ''reader@example.com'',
          raw_user_meta_data = Some [(''full_name'', ''Reader'')]\<rparr>,
         \<lparr>auth_user_id = 8, auth_user_email = Some ''other@example.com'',
          raw_user_meta_data = Some [(''full_name'', ''Other'')]\<rparr>],
      profiles =
        [\<lparr>profile_id = 1, profile_email = ''admin@admin.com'',
          profile_full_name = Some ''Admin User'', profile_phone = None, profile_address = None,
          profile_role = admin, profile_is_blocked = Some False,
          profile_created_at = 0, profile_updated_at = 0\<rparr>,
         \<lparr>profile_id = 7, profile_email = ''reader@example.com'',
          profile_full_name = Some ''Reader'', profile_phone = None, profile_address = None,
          profile_role = customer, profile_is_blocked = Some False,
          profile_created_at = 2, profile_updated_at = 2\<rparr>,
         \<lparr>profile_id = 8, profile_email = ''other@example.com'',
          profile_full_name = Some ''Other'', profile_phone = None, profile_address = None,
          profile_role = customer, profile_is_blocked = Some False,
          profile_created_at = 3, profile_updated_at = 3\<rparr>],
      orders =
        [\<lparr>order_id = 1, order_user_id = 7, order_total_amount = 1999,
          order_status = confirmed, order_shipping_address = ''1 Main St'',
          order_created_at = 5, order_updated_at = 5\<rparr>]\<rparr>
     True
     \<lparr>order_id = 1, order_user_id = 7, order_total_amount = 1999,
      order_status = confirmed, order_shipping_address = ''1 Main St'',
      order_created_at = 5, order_updated_at = 5\<rparr>"
  by (simp add: order_insert_iff_owner)

text \<open>
  C7. An update of an order is admitted exactly when the caller's role is \<open>'admin'\<close>.
  Neither the existing row nor the new row enters the test, so every change of status
  is admitted for an admin and none for a customer, whether or not the statement has a
  WHERE clause. In the witness the admin (id 1) and the order's owner (id 7) each set
  the order from \<open>confirmed\<close> to \<open>delivered\<close>.
\<close>

theorem order_update_iff_admin:
  "update_admitted orders_policies uid db reads old new =
     (get_current_user_role uid db = Some ''admin'')"
  by (cases reads) (auto simp: admitted_defs policy_defs is_true_role_is_admin)

theorem order_update_iff_admin_witness:
  "update_admitted orders_policies (Some 1)
     \<lparr>auth_users =
        [\<lparr>auth_user_id = 1, auth_user_email = Some ''admin@admin.com'',
          raw_user_meta_data = Some [(''full_name'', ''Admin User'')]\<rparr>,
         \<lparr>auth_user_id = 7, auth_user_email = Some ''reader@example.com'',
          raw_user_meta_data = Some [(''full_name'', ''Reader'')]\<rparr>,
         \<lparr>auth_user_id = 8, auth_user_email = Some ''other@example.com'',
          raw_user_meta_data = Some [(''full_name'', ''Other'')]\<rparr>],
      profiles =
        [\<lparr>profile_id = 1, profile_email = ''admin@admin.com'',
          profile_full_name = Some ''Admin User'', profile_phone = None, profile_address = None,
          profile_role = admin, profile_is_blocked = Some False,
          profile_created_at = 0, profile_updated_at = 0\<rparr>,
         \<lparr>profile_id = 7, profile_email = ''reader@example.com'',
          profile_full_name = Some ''Reader'', profile_phone = None, profile_address = None,
          profile_role = customer, profile_is_blocked = Some False,
          profile_created_at = 2, profile_updated_at = 2\<rparr>,
         \<lparr>profile_id = 8, profile_email = ''other@example.com'',
          profile_full_name = Some ''Other'', profile_phone = None, profile_address = None,
          profile_role = customer, profile_is_blocked = Some False,
          profile_created_at = 3, profile_updated_at = 3\<rparr>],
      orders =
        [\<lparr>order_id = 1, order_user_id = 7, order_total_amount = 1999,
          order_status = confirmed, order_shipping_address = ''1 Main St'',
          order_created_at = 5, order_updated_at = 5\<rparr>]\<rparr>
     True
     \<lparr>order_id = 1, order_user_id = 7, order_total_amount = 1999,
      order_status = confirmed, order_shipping_address = ''1 Main St'',
      order_created_at = 5, order_updated_at = 5\<rparr>
     \<lparr>order_id = 1, order_user_id = 7, order_total_amount = 1999,
      order_status = delivered, order_shipping_address = ''1 Main St'',
      order_created_at = 5, order_updated_at = 5\<rparr>
   \<and> \<not> update_admitted orders_policies (Some 7)
     \<lparr>auth_users =
        [\<lparr>auth_user_id = 1, auth_user_email = Some ''admin@admin.com'',
          raw_user_meta_data = Some [(''full_name'', ''Admin User'')]\<rparr>,
         \<lparr>auth_user_id = 7, auth_user_email = Some ''reader@example.com'',
          raw_user_meta_data = Some [(''full_name'', ''Reader'')]\<rparr>,
         \<lparr>auth_user_id = 8, auth_user_email = Some ''other@example.com'',
          raw_user_meta_data = Some [(''full_name'', ''Other'')]\<rparr>],
      profiles =
        [\<lparr>profile_id = 1, profile_email = ''admin@admin.com'',
          profile_full_name = Some ''Admin User'', profile_phone = None, profile_address = None,
          profile_role = admin, profile_is_blocked = Some False,
          profile_created_at = 0, profile_updated_at = 0\<rparr>,
         \<lparr>profile_id = 7, profile_email = ''reader@example.com'',
          profile_full_name = Some ''Reader'', profile_phone = None, profile_address = None,
          profile_role = customer, profile_is_blocked = Some False,
          profile_created_at = 2, profile_updated_at = 2\<rparr>,
         \<lparr>profile_id = 8, profile_email = ''other@example.com'',
          profile_full_name = Some ''Other'', profile_phone = None, profile_address = None,
          profile_role = customer, profile_is_blocked = Some False,
          profile_created_at = 3, profile_updated_at = 3\<rparr>],
      orders =
        [\<lparr>order_id = 1, order_user_id = 7, order_total_amount = 1999,
          order_status = confirmed, order_shipping_address = ''1 Main St'',
          order_created_at = 5, order_updated_at = 5\<rparr>]\<rparr>
     True
     \<lparr>order_id = 1, order_user_id = 7, order_total_amount = 1999,
      order_status = confirmed, order_shipping_address = ''1 Main St'',
      order_created_at = 5, order_updated_at = 5\<rparr>
     \<lparr>order_id = 1, order_user_id = 7, order_total_amount = 1999,
      order_status = delivered, order_shipping_address = ''1 Main St'',
      order_created_at = 5, order_updated_at = 5\<rparr>"
  by (simp add: order_update_iff_admin get_current_user_role_def)

section \<open>Order items\<close>

text \<open>
  C8. An insert of an order item is admitted exactly when \<open>orders\<close> holds the referenced
  order (\<open>id = order_id\<close>) and that order's \<open>user_id\<close> is the caller's identity. A read
  of an order item is admitted exactly when the caller owns the referenced order in this
  sense or the caller's role is \<open>'admin'\<close>: the order items of another principal are
  hidden from everyone but an admin.
\<close>

theorem order_item_insert_and_select:
  "insert_admitted order_items_policies uid db reads new =
     (\<exists>parent \<in> set (orders db).
        order_id parent = order_item_order_id new \<and> uid = Some (order_user_id parent))
   \<and> select_admitted order_items_policies uid db r =
     ((\<exists>parent \<in> set (orders db).
        order_id parent = order_item_order_id r \<and> uid = Some (order_user_id parent))
      \<or> get_current_user_role uid db = Some ''admin'')"
proof -
  have chk: "check_qual order_items_policies INSERT uid db new =
      (\<exists>parent \<in> set (orders db).
         order_id parent = order_item_order_id new \<and> uid = Some (order_user_id parent))"
    by (simp add: admitted_defs policy_defs exists_own_parent_order_iff)
  have sel: "using_qual order_items_policies SELECT uid db x =
      ((\<exists>parent \<in> set (orders db).
          order_id parent = order_item_order_id x \<and> uid = Some (order_user_id parent))
       \<or> get_current_user_role uid db = Some ''admin'')" for x
    by (simp add: admitted_defs policy_defs is_true_role_is_admin
          exists_own_parent_order_iff)
  have ins: "insert_admitted order_items_policies uid db reads new =
      (\<exists>parent \<in> set (orders db).
         order_id parent = order_item_order_id new \<and> uid = Some (order_user_id parent))"
    unfolding insert_admitted_def chk sel by (cases reads) auto
  show ?thesis
    unfolding ins select_admitted_def sel by simp
qed

theorem order_item_insert_and_select_witness:
  "insert_admitted order_items_policies (Some 7)
     \<lparr>auth_users =
        [\<lparr>auth_user_id = 1, auth_user_email = Some ''admin@admin.com'',
          raw_user_meta_data = Some [(''full_name'', ''Admin User'')]\<rparr>,
         \<lparr>auth_user_id = 7, auth_user_email = Some ''reader@example.com'',
          raw_user_meta_data = Some [(''full_name'', ''Reader'')]\<rparr>,
         \<lparr>auth_user_id = 8, auth_user_email = Some ''other@example.com'',
          raw_user_meta_data = Some [(''full_name'', ''Other'')]\<rparr>],
      profiles =
        [\<lparr>profile_id = 1, profile_email = ''admin@admin.com'',
          profile_full_name = Some ''Admin User'', profile_phone = None, profile_address = None,
          profile_role = admin, profile_is_blocked = Some False,
          profile_created_at = 0, profile_updated_at = 0\<rparr>,
         \<lparr>profile_id = 7, profile_email = ''reader@example.com'',
          profile_full_name = Some ''Reader'', profile_phone = None, profile_address = None,
          profile_role = customer, profile_is_blocked = Some False,
          profile_created_at = 2, profile_updated_at = 2\<rparr>,
         \<lparr>profile_id = 8, profile_email = ''other@example.com'',
          profile_full_name = Some ''Other'', profile_phone = None, profile_address = None,
          profile_role = customer, profile_is_blocked = Some False,
          profile_created_at = 3, profile_updated_at = 3\<rparr>],
      orders =
        [\<lparr>order_id = 1, order_user_id = 7, order_total_amount = 1999,
          order_status = confirmed, order_shipping_address = ''1 Main St'',
          order_created_at = 5, order_updated_at = 5\<rparr>]\<rparr>
     True
     \<lparr>order_item_id = 3, order_item_order_id = 1, order_item_book_id = 4,
      order_item_quantity = 1, order_item_price = 1999, order_item_created_at = 5\<rparr>
   \<and> \<not> insert_admitted order_items_policies (Some 8)
     \<lparr>auth_users =
        [\<lparr>auth_user_id = 1, auth_user_email = Some ''admin@admin.com'',
          raw_user_meta_data = Some [(''full_name'', ''Admin User'')]\<rparr>,
         \<lparr>auth_user_id = 7, auth_user_email = Some ''reader@example.com'',
          raw_user_meta_data = Some [(''full_name'', ''Reader'')]\<rparr>,
         \<lparr>auth_user_id = 8, auth_user_email = Some ''other@example.com'',
          raw_user_meta_data = Some [(''full_name'', ''Other'')]\<rparr>],
      profiles =
        [\<lparr>profile_id = 1, profile_email = ''admin@admin.com'',
          profile_full_name = Some ''Admin User'', profile_phone = None, profile_address = None,
          profile_role = admin, profile_is_blocked = Some False,
          profile_created_at = 0, profile_updated_at = 0\<rparr>,
         \<lparr>profile_id = 7, profile_email = ''reader@example.com'',
          profile_full_name = Some ''Reader'', profile_phone = None, profile_address = None,
          profile_role = customer, profile_is_blocked = Some False,
          profile_created_at = 2, profile_updated_at = 2\<rparr>,
         \<lparr>profile_id = 8, profile_email = ''other@example.com'',
          profile_full_name = Some ''Other'', profile_phone = None, profile_address = None,
          profile_role = customer, profile_is_blocked = Some False,
          profile_created_at = 3, profile_updated_at = 3\<rparr>],
      orders =
        [\<lparr>order_id = 1, order_user_id = 7, order_total_amount = 1999,
          order_status = confirmed, order_shipping_address = ''1 Main St'',
          order_created_at = 5, order_updated_at = 5\<rparr>]\<rparr>
     True
     \<lparr>order_item_id = 3, order_item_order_id = 1, order_item_book_id = 4,
      order_item_quantity = 1, order_item_price = 1999, order_item_created_at = 5\<rparr>
   \<and> \<not> select_admitted order_items_policies (Some 8)
     \<lparr>auth_users =
        [\<lparr>auth_user_id = 1, auth_user_email = Some ''admin@admin.com'',
          raw_user_meta_data = Some [(''full_name'', ''Admin User'')]\<rparr>,
         \<lparr>auth_user_id = 7, auth_user_email = Some ''reader@example.com'',
          raw_user_meta_data = Some [(''full_name'', ''Reader'')]\<rparr>,
         \<lparr>auth_user_id = 8, auth_user_email = Some ''other@example.com'',
          raw_user_meta_data = Some [(''full_name'', ''Other'')]\<rparr>],
      profiles =
        [\<lparr>profile_id = 1, profile_email = ''admin@admin.com'',
          profile_full_name = Some ''Admin User'', profile_phone = None, profile_address = None,
          profile_role = admin, profile_is_blocked = Some False,
          profile_created_at = 0, profile_updated_at = 0\<rparr>,
         \<lparr>profile_id = 7, profile_email = ''reader@example.com'',
          profile_full_name = Some ''Reader'', profile_phone = None, profile_address = None,
          profile_role = customer, profile_is_blocked = Some False,
          profile_created_at = 2, profile_updated_at = 2\<rparr>,
         \<lparr>profile_id = 8, profile_email = ''other@example.com'',
          profile_full_name = Some ''Other'', profile_phone = None, profile_address = None,
          profile_role = customer, profile_is_blocked = Some False,
          profile_created_at = 3, profile_updated_at = 3\<rparr>],
      orders =
        [\<lparr>order_id = 1, order_user_id = 7, order_total_amount = 1999,
          order_status = confirmed, order_shipping_address = ''1 Main St'',
          order_created_at = 5, order_updated_at = 5\<rparr>]\<rparr>
     \<lparr>order_item_id = 3, order_item_order_id = 1, order_item_book_id = 4,
      order_item_quantity = 1, order_item_price = 1999, order_item_created_at = 5\<rparr>
   \<and> select_admitted order_items_policies (Some 1)
     \<lparr>auth_users =
        [\<lparr>auth_user_id = 1, auth_user_email = Some ''admin@admin.com'',
          raw_user_meta_data = Some [(''full_name'', ''Admin User'')]\<rparr>,
         \<lparr>auth_user_id = 7, auth_user_email = Some ''reader@example.com'',
          raw_user_meta_data = Some [(''full_name'', ''Reader'')]\<rparr>,
         \<lparr>auth_user_id = 8, auth_user_email = Some ''other@example.com'',
          raw_user_meta_data = Some [(''full_name'', ''Other'')]\<rparr>],
      profiles =
        [\<lparr>profile_id = 1, profile_email = ''admin@admin.com'',
          profile_full_name = Some ''Admin User'', profile_phone = None, profile_address = None,
          profile_role = admin, profile_is_blocked = Some False,
          profile_created_at = 0, profile_updated_at = 0\<rparr>,
         \<lparr>profile_id = 7, profile_email = ''reader@example.com'',
          profile_full_name = Some ''Reader'', profile_phone = None, profile_address = None,
          profile_role = customer, profile_is_blocked = Some False,
          profile_created_at = 2, profile_updated_at = 2\<rparr>,
         \<lparr>profile_id = 8, profile_email = ''other@example.com'',
          profile_full_name = Some ''Other'', profile_phone = None, profile_address = None,
          profile_role = customer, profile_is_blocked = Some False,
          profile_created_at = 3, profile_updated_at = 3\<rparr>],
      orders =
        [\<lparr>order_id = 1, order_user_id = 7, order_total_amount = 1999,
          order_status = confirmed, order_shipping_address = ''1 Main St'',
          order_created_at = 5, order_updated_at = 5\<rparr>]\<rparr>
     \<lparr>order_item_id = 3, order_item_order_id = 1, order_item_book_id = 4,
      order_item_quantity = 1, order_item_price = 1999, order_item_created_at = 5\<rparr>"
  by (simp add: order_item_insert_and_select get_current_user_role_def)

section \<open>Categories and books\<close>

text \<open>
  C6. On \<open>categories\<close> and on \<open>books\<close>, an insert, an update and a delete are each
  admitted exactly when the role function returns \<open>'admin'\<close> for the caller. Any other
  result refuses them: \<open>'customer'\<close>, and NULL for a caller with no profile row.
\<close>

theorem catalog_writes_iff_admin:
  "insert_admitted categories_policies uid db reads c' =
     (get_current_user_role uid db = Some ''admin'')
   \<and> update_admitted categories_policies uid db reads c c' =
     (get_current_user_role uid db = Some ''admin'')
   \<and> delete_admitted categories_policies uid db reads c =
     (get_current_user_role uid db = Some ''admin'')
   \<and> insert_admitted books_policies uid db reads b' =
     (get_current_user_role uid db = Some ''admin'')
   \<and> update_admitted books_policies uid db reads b b' =
     (get_current_user_role uid db = Some ''admin'')
   \<and> delete_admitted books_policies uid db reads b =
     (get_current_user_role uid db = Some ''admin'')"
  by (cases reads) (simp_all add: admitted_defs policy_defs is_true_role_is_admin)

theorem catalog_writes_iff_admin_witness:
  "delete_admitted categories_policies (Some 1)
     \<lparr>auth_users =
        [\<lparr>auth_user_id = 1, auth_user_email = Some ''admin@admin.com'',
          raw_user_meta_data = Some [(''full_name'', ''Admin User'')]\<rparr>,
         \<lparr>auth_user_id = 7, auth_user_email = Some ''reader@example.com'',
          raw_user_meta_data = Some [(''full_name'', ''Reader'')]\<rparr>,
         \<lparr>auth_user_id = 8, auth_user_email = Some ''other@example.com'',
          raw_user_meta_data = Some [(''full_name'', ''Other'')]\<rparr>],
      profiles =
        [\<lparr>profile_id = 1, profile_email = ''admin@admin.com'',
          profile_full_name = Some ''Admin User'', profile_phone = None, profile_address = None,
          profile_role = admin, profile_is_blocked = Some False,
          profile_created_at = 0, profile_updated_at = 0\<rparr>,
         \<lparr>profile_id = 7, profile_email = ''reader@example.com'',
          profile_full_name = Some ''Reader'', profile_phone = None, profile_address = None,
          profile_role = customer, profile_is_blocked = Some False,
          profile_created_at = 2, profile_updated_at = 2\<rparr>,
         \<lparr>profile_id = 8, profile_email = ''other@example.com'',
          profile_full_name = Some ''Other'', profile_phone = None, profile_address = None,
          profile_role = customer, profile_is_blocked = Some False,
          profile_created_at = 3, profile_updated_at = 3\<rparr>],
      orders =
        [\<lparr>order_id = 1, order_user_id = 7, order_total_amount = 1999,
          order_status = confirmed, order_shipping_address = ''1 Main St'',
          order_created_at = 5, order_updated_at = 5\<rparr>]\<rparr>
     True
     \<lparr>category_id = 9, category_name = ''Fiction'',
      category_description = Some ''Novels, short stories, and other fictional works'',
      category_created_at = 0\<rparr>
   \<and> \<not> delete_admitted categories_policies (Some 7)
     \<lparr>auth_users =
        [\<lparr>auth_user_id = 1, auth_user_email = Some ''admin@admin.com'',
          raw_user_meta_data = Some [(''full_name'', ''Admin User'')]\<rparr>,
         \<lparr>auth_user_id = 7, auth_user_email = Some ''reader@example.com'',
          raw_user_meta_data = Some [(''full_name'', ''Reader'')]\<rparr>,
         \<lparr>auth_user_id = 8, auth_user_email = Some ''other@example.com'',
          raw_user_meta_data = Some [(''full_name'', ''Other'')]\<rparr>],
      profiles =
        [\<lparr>profile_id = 1, profile_email = ''admin@admin.com'',
          profile_full_name = Some ''Admin User'', profile_phone = None, profile_address = None,
          profile_role = admin, profile_is_blocked = Some False,
          profile_created_at = 0, profile_updated_at = 0\<rparr>,
         \<lparr>profile_id = 7, profile_email = ''reader@example.com'',
          profile_full_name = Some ''Reader'', profile_phone = None, profile_address = None,
          profile_role = customer, profile_is_blocked = Some False,
          profile_created_at = 2, profile_updated_at = 2\<rparr>,
         \<lparr>profile_id = 8, profile_email = ''other@example.com'',
          profile_full_name = Some ''Other'', profile_phone = None, profile_address = None,
          profile_role = customer, profile_is_blocked = Some False,
          profile_created_at = 3, profile_updated_at = 3\<rparr>],
      orders =
        [\<lparr>order_id = 1, order_user_id = 7, order_total_amount = 1999,
          order_status = confirmed, order_shipping_address = ''1 Main St'',
          order_created_at = 5, order_updated_at = 5\<rparr>]\<rparr>
     True
     \<lparr>category_id = 9, category_name = ''Fiction'',
      category_description = Some ''Novels, short stories, and other fictional works'',
      category_created_at = 0\<rparr>
   \<and> \<not> delete_admitted categories_policies (Some 7)
     \<lparr>auth_users =
        [\<lparr>auth_user_id = 1, auth_user_email = Some ''admin@admin.com'',
          raw_user_meta_data = Some [(''full_name'', ''Admin User'')]\<rparr>,
         \<lparr>auth_user_id = 7, auth_user_email = Some ''reader@example.com'',
          raw_user_meta_data = Some [(''full_name'', ''Reader'')]\<rparr>],
      profiles =
        [\<lparr>profile_id = 1, profile_email = ''admin@admin.com'',
          profile_full_name = Some ''Admin User'', profile_phone = None, profile_address = None,
          profile_role = admin, profile_is_blocked = Some False,
          profile_created_at = 0, profile_updated_at = 0\<rparr>],
      orders =
        [\<lparr>order_id = 1, order_user_id = 7, order_total_amount = 1999,
          order_status = confirmed, order_shipping_address = ''1 Main St'',
          order_created_at = 5, order_updated_at = 5\<rparr>]\<rparr>
     True
     \<lparr>category_id = 9, category_name = ''Fiction'',
      category_description = Some ''Novels, short stories, and other fictional works'',
      category_created_at = 0\<rparr>"
  by (simp add: catalog_writes_iff_admin get_current_user_role_def)

section \<open>Cart items\<close>

text \<open>
  C10. The one policy on \<open>cart_items\<close> is for ALL commands, with the test
  \<open>auth.uid() = user_id\<close> on every row it sees. A read and a delete are admitted exactly
  when the row's \<open>user_id\<close> is the caller's identity, an insert exactly when the new
  row's is, an update exactly when both the row as it is and the row as written carry
  the caller's identity as \<open>user_id\<close>. An anonymous caller is refused all four.
\<close>

theorem cart_iff_owner:
  "select_admitted cart_items_policies uid db r = (uid = Some (cart_item_user_id r))
   \<and> insert_admitted cart_items_policies uid db reads r' = (uid = Some (cart_item_user_id r'))
   \<and> update_admitted cart_items_policies uid db reads r r' =
       (uid = Some (cart_item_user_id r) \<and> uid = Some (cart_item_user_id r'))
   \<and> delete_admitted cart_items_policies uid db reads r = (uid = Some (cart_item_user_id r))
   \<and> \<not> select_admitted cart_items_policies None db r
   \<and> \<not> insert_admitted cart_items_policies None db reads r'
   \<and> \<not> update_admitted cart_items_policies None db reads r r'
   \<and> \<not> delete_admitted cart_items_policies None db reads r"
  by (cases reads) (auto simp: admitted_defs policy_defs)

theorem cart_iff_owner_witness:
  "update_admitted cart_items_policies (Some 7)
     \<lparr>auth_users =
        [\<lparr>auth_user_id = 1, auth_user_email = Some ''admin@admin.com'',
          raw_user_meta_data = Some [(''full_name'', ''Admin User'')]\<rparr>,
         \<lparr>auth_user_id = 7, auth_user_email = Some ''reader@example.com'',
          raw_user_meta_data = Some [(''full_name'', ''Reader'')]\<rparr>,
         \<lparr>auth_user_id = 8, auth_user_email = Some ''other@example.com'',
          raw_user_meta_data = Some [(''full_name'', ''Other'')]\<rparr>],
      profiles =
        [\<lparr>profile_id = 1, profile_email = ''admin@admin.com'',
          profile_full_name = Some ''Admin User'', profile_phone = None, profile_address = None,
          profile_role = admin, profile_is_blocked = Some False,
          profile_created_at = 0, profile_updated_at = 0\<rparr>,
         \<lparr>profile_id = 7, profile_email = ''reader@example.com'',
          profile_full_name = Some ''Reader'', profile_phone = None, profile_address = None,
          profile_role = customer, profile_is_blocked = Some False,
          profile_created_at = 2, profile_updated_at = 2\<rparr>,
         \<lparr>profile_id = 8, profile_email = ''other@example.com'',
          profile_full_name = Some ''Other'', profile_phone = None, profile_address = None,
          profile_role = customer, profile_is_blocked = Some False,
          profile_created_at = 3, profile_updated_at = 3\<rparr>],
      orders =
        [\<lparr>order_id = 1, order_user_id = 7, order_total_amount = 1999,
          order_status = confirmed, order_shipping_address = ''1 Main St'',
          order_created_at = 5, order_updated_at = 5\<rparr>]\<rparr>
     True
     \<lparr>cart_item_id = 3, cart_item_user_id = 7, cart_item_book_id = 4,
      cart_item_quantity = 1, cart_item_created_at = 5\<rparr>
     \<lparr>cart_item_id = 3, cart_item_user_id = 7, cart_item_book_id = 4,
      cart_item_quantity = 2, cart_item_created_at = 5\<rparr>
   \<and> \<not> select_admitted cart_items_policies (Some 8)
     \<lparr>auth_users =
        [\<lparr>auth_user_id = 1, auth_user_email = Some ''admin@admin.com'',
          raw_user_meta_data = Some [(''full_name'', ''Admin User'')]\<rparr>,
         \<lparr>auth_user_id = 7, auth_user_email = Some ''reader@example.com'',
          raw_user_meta_data = Some [(''full_name'', ''Reader'')]\<rparr>,
         \<lparr>auth_user_id = 8, auth_user_email = Some ''other@example.com'',
          raw_user_meta_data = Some [(''full_name'', ''Other'')]\<rparr>],
      profiles =
        [\<lparr>profile_id = 1, profile_email = ''admin@admin.com'',
          profile_full_name = Some ''Admin User'', profile_phone = None, profile_address = None,
          profile_role = admin, profile_is_blocked = Some False,
          profile_created_at = 0, profile_updated_at = 0\<rparr>,
         \<lparr>profile_id = 7, profile_email = ''reader@example.com'',
          profile_full_name = Some ''Reader'', profile_phone = None, profile_address = None,
          profile_role = customer, profile_is_blocked = Some False,
          profile_created_at = 2, profile_updated_at = 2\<rparr>,
         \<lparr>profile_id = 8, profile_email = ''other@example.com'',
          profile_full_name = Some ''Other'', profile_phone = None, profile_address = None,
          profile_role = customer, profile_is_blocked = Some False,
          profile_created_at = 3, profile_updated_at = 3\<rparr>],
      orders =
        [\<lparr>order_id = 1, order_user_id = 7, order_total_amount = 1999,
          order_status = confirmed, order_shipping_address = ''1 Main St'',
          order_created_at = 5, order_updated_at = 5\<rparr>]\<rparr>
     \<lparr>cart_item_id = 3, cart_item_user_id = 7, cart_item_book_id = 4,
      cart_item_quantity = 1, cart_item_created_at = 5\<rparr>
   \<and> \<not> select_admitted cart_items_policies (Some 1)
     \<lparr>auth_users =
        [\<lparr>auth_user_id = 1, auth_user_email = Some ''admin@admin.com'',
          raw_user_meta_data = Some [(''full_name'', ''Admin User'')]\<rparr>,
         \<lparr>auth_user_id = 7, auth_user_email = Some ''reader@example.com'',
          raw_user_meta_data = Some [(''full_name'', ''Reader'')]\<rparr>,
         \<lparr>auth_user_id = 8, auth_user_email = Some ''other@example.com'',
          raw_user_meta_data = Some [(''full_name'', ''Other'')]\<rparr>],
      profiles =
        [\<lparr>profile_id = 1, profile_email = ''admin@admin.com'',
          profile_full_name = Some ''Admin User'', profile_phone = None, profile_address = None,
          profile_role = admin, profile_is_blocked = Some False,
          profile_created_at = 0, profile_updated_at = 0\<rparr>,
         \<lparr>profile_id = 7, profile_email = ''reader@example.com'',
          profile_full_name = Some ''Reader'', profile_phone = None, profile_address = None,
          profile_role = customer, profile_is_blocked = Some False,
          profile_created_at = 2, profile_updated_at = 2\<rparr>,
         \<lparr>profile_id = 8, profile_email = ''other@example.com'',
          profile_full_name = Some ''Other'', profile_phone = None, profile_address = None,
          profile_role = customer, profile_is_blocked = Some False,
          profile_created_at = 3, profile_updated_at = 3\<rparr>],
      orders =
        [\<lparr>order_id = 1, order_user_id = 7, order_total_amount = 1999,
          order_status = confirmed, order_shipping_address = ''1 Main St'',
          order_created_at = 5, order_updated_at = 5\<rparr>]\<rparr>
     \<lparr>cart_item_id = 3, cart_item_user_id = 7, cart_item_book_id = 4,
      cart_item_quantity = 1, cart_item_created_at = 5\<rparr>"
  by (simp add: cart_iff_owner)

section \<open>A caller with no profile row\<close>

text \<open>
  C9. For a caller with no row in \<open>profiles\<close> (an anonymous caller, or an identity whose
  row is not there yet), the role function returns NULL and raises nothing. The test
  \<open>get_current_user_role() = 'admin'\<close> is then NULL, which is not true, so none of the
  six admin policies passes any row. Such a caller writes neither books nor categories
  and updates no order, and still reads books and categories like anyone.
\<close>

theorem no_profile_row_not_admin:
  assumes "\<forall>p\<in>set (profiles db). uid \<noteq> Some (profile_id p)"
  shows "get_current_user_role uid db = None
    \<and> role_is_admin uid db = None
    \<and> \<not> using_passes admins_can_view_all_profiles uid db pr
    \<and> \<not> using_passes admins_can_manage_categories uid db c
    \<and> \<not> using_passes admins_can_manage_books uid db b
    \<and> \<not> using_passes admins_can_view_all_orders uid db od
    \<and> \<not> using_passes admins_can_update_orders uid db od
    \<and> \<not> using_passes admins_can_view_all_order_items uid db oi
    \<and> \<not> insert_admitted books_policies uid db reads b
    \<and> \<not> insert_admitted categories_policies uid db reads c
    \<and> \<not> update_admitted orders_policies uid db reads od od'
    \<and> select_admitted books_policies uid db b
    \<and> select_admitted categories_policies uid db c"
proof -
  have none: "get_current_user_role uid db = None"
    using assms by (rule get_current_user_role_no_row)
  then have null: "role_is_admin uid db = None"
    by (simp add: role_is_admin_def)
  show ?thesis
    using none null by (simp add: admitted_defs policy_defs)
qed

theorem no_profile_row_not_admin_witness:
  "get_current_user_role (Some 7)
     \<lparr>auth_users =
        [\<lparr>auth_user_id = 1, auth_user_email = Some ''admin@admin.com'',
          raw_user_meta_data = Some [(''full_name'', ''Admin User'')]\<rparr>,
         \<lparr>auth_user_id = 7, auth_user_email = Some ''reader@example.com'',
          raw_user_meta_data = Some [(''full_name'', ''Reader'')]\<rparr>],
      profiles =
        [\<lparr>profile_id = 1, profile_email = ''admin@admin.com'',
          profile_full_name = Some ''Admin User'', profile_phone = None, profile_address = None,
          profile_role = admin, profile_is_blocked = Some False,
          profile_created_at = 0, profile_updated_at = 0\<rparr>],
      orders =
        [\<lparr>order_id = 1, order_user_id = 7, order_total_amount = 1999,
          order_status = confirmed, order_shipping_address = ''1 Main St'',
          order_created_at = 5, order_updated_at = 5\<rparr>]\<rparr> = None
   \<and> \<not> update_admitted orders_policies (Some 7)
     \<lparr>auth_users =
        [\<lparr>auth_user_id = 1, auth_user_email = Some ''admin@admin.com'',
          raw_user_meta_data = Some [(''full_name'', ''Admin User'')]\<rparr>,
         \<lparr>auth_user_id = 7, auth_user_email = Some ''reader@example.com'',
          raw_user_meta_data = Some [(''full_name'', ''Reader'')]\<rparr>],
      profiles =
        [\<lparr>profile_id = 1, profile_email = ''admin@admin.com'',
          profile_full_name = Some ''Admin User'', profile_phone = None, profile_address = None,
          profile_role = admin, profile_is_blocked = Some False,
          profile_created_at = 0, profile_updated_at = 0\<rparr>],
      orders =
        [\<lparr>order_id = 1, order_user_id = 7, order_total_amount = 1999,
          order_status = confirmed, order_shipping_address = ''1 Main St'',
          order_created_at = 5, order_updated_at = 5\<rparr>]\<rparr>
     True
     \<lparr>order_id = 1, order_user_id = 7, order_total_amount = 1999,
      order_status = confirmed, order_shipping_address = ''1 Main St'',
      order_created_at = 5, order_updated_at = 5\<rparr>
     \<lparr>order_id = 1, order_user_id = 7, order_total_amount = 1999,
      order_status = delivered, order_shipping_address = ''1 Main St'',
      order_created_at = 5, order_updated_at = 5\<rparr>"
  using no_profile_row_not_admin
    [of "\<lparr>auth_users =
            [\<lparr>auth_user_id = 1, auth_user_email = Some ''admin@admin.com'',
              raw_user_meta_data = Some [(''full_name'', ''Admin User'')]\<rparr>,
             \<lparr>auth_user_id = 7, auth_user_email = Some ''reader@example.com'',
              raw_user_meta_data = Some [(''full_name'', ''Reader'')]\<rparr>],
          profiles =
            [\<lparr>profile_id = 1, profile_email = ''admin@admin.com'',
              profile_full_name = Some ''Admin User'', profile_phone = None, profile_address = None,
              profile_role = admin, profile_is_blocked = Some False,
              profile_created_at = 0, profile_updated_at = 0\<rparr>],
          orders =
            [\<lparr>order_id = 1, order_user_id = 7, order_total_amount = 1999,
              order_status = confirmed, order_shipping_address = ''1 Main St'',
              order_created_at = 5, order_updated_at = 5\<rparr>]\<rparr>"
        "Some 7"]
  by simp

section \<open>The registration trigger\<close>

lemma profiles_insert_Inr:
  assumes "profiles_insert p db = Inr db'"
  shows "profile_id p \<notin> set (map profile_id (profiles db))"
    and "profiles db' = profiles db @ [p]"
    and "auth_users db' = auth_users db"
  using assms by (auto simp: profiles_insert_def split: if_splits)

text \<open>
  Through the trigger the function runs once for an identity: \<open>profiles.id\<close> references
  \<open>auth.users(id)\<close>, which is therefore a key of \<open>auth.users\<close>, and a second insert of
  the same identity stops at that key before the trigger fires.
\<close>

lemma on_auth_user_created_twice:
  assumes "on_auth_user_created t1 new db = Inr db'"
  shows "on_auth_user_created t2 new db' = Inl unique_violation"
proof -
  from assms obtain e where e: "auth_user_email new = Some e"
    by (auto simp: on_auth_user_created_def handle_new_user_def
          split: if_splits option.splits)
  from assms e obtain row where
    "profiles_insert row (db\<lparr>auth_users := auth_users db @ [new]\<rparr>) = Inr db'"
    by (auto simp: on_auth_user_created_def handle_new_user_def split: if_splits)
  then have "auth_users db' = auth_users db @ [new]"
    using profiles_insert_Inr(3) by fastforce
  then show ?thesis
    by (simp add: on_auth_user_created_def)
qed

text \<open>The admin seed, with its conflict clause, can run again: the second run does nothing.\<close>

lemma create_admin_user_twice:
  assumes "create_admin_user t1 db = Inr db'"
  shows "create_admin_user t2 db' = Inr db'"
proof -
  have "(1::uuid) \<in> set (map profile_id (profiles db'))"
    using assms
    by (auto simp: create_admin_user_def profiles_insert_on_conflict_do_nothing_def
          profiles_insert_def split: if_splits)
  then show ?thesis
    by (simp add: create_admin_user_def profiles_insert_on_conflict_do_nothing_def)
qed

text \<open>The row the function writes has the default role and is not blocked.\<close>

lemma handle_new_user_defaults:
  assumes "handle_new_user t new db = Inr db'"
  shows "\<exists>p. profiles db' = profiles db @ [p] \<and> profile_id p = auth_user_id new \<and>
             profile_role p = customer \<and> profile_is_blocked p = Some False"
  using assms
  by (auto simp: handle_new_user_def profiles_insert_def split: option.splits if_splits)

text \<open>
  C3. The claim fails on the trigger function as written: its INSERT has no ON CONFLICT
  clause, so a second firing for the same identity meets the primary key of \<open>profiles\<close>
  and raises. Here the first firing creates the row of identity 3 and the second one
  raises \<open>unique_violation\<close>.
\<close>

theorem handle_new_user_twice_counterexample:
  "handle_new_user 10
     \<lparr>auth_user_id = 3, auth_user_email = Some ''new@example.com'',
      raw_user_meta_data = Some [(''full_name'', ''New Reader'')]\<rparr>
     \<lparr>auth_users =
        [\<lparr>auth_user_id = 1, auth_user_email = Some ''admin@admin.com'',
          raw_user_meta_data = Some [(''full_name'', ''Admin User'')]\<rparr>,
         \<lparr>auth_user_id = 3, auth_user_email = Some ''new@example.com'',
          raw_user_meta_data = Some [(''full_name'', ''New Reader'')]\<rparr>],
      profiles =
        [\<lparr>profile_id = 1, profile_email = ''admin@admin.com'',
          profile_full_name = Some ''Admin User'', profile_phone = None, profile_address = None,
          profile_role = admin, profile_is_blocked = Some False,
          profile_created_at = 0, profile_updated_at = 0\<rparr>],
      orders =
        []\<rparr>
   = Inr
     \<lparr>auth_users =
        [\<lparr>auth_user_id = 1, auth_user_email = Some ''admin@admin.com'',
          raw_user_meta_data = Some [(''full_name'', ''Admin User'')]\<rparr>,
         \<lparr>auth_user_id = 3, auth_user_email = Some ''new@example.com'',
          raw_user_meta_data = Some [(''full_name'', ''New Reader'')]\<rparr>],
      profiles =
        [\<lparr>profile_id = 1, profile_email = ''admin@admin.com'',
          profile_full_name = Some ''Admin User'', profile_phone = None, profile_address = None,
          profile_role = admin, profile_is_blocked = Some False,
          profile_created_at = 0, profile_updated_at = 0\<rparr>,
         \<lparr>profile_id = 3, profile_email = ''new@example.com'',
          profile_full_name = Some ''New Reader'', profile_phone = None, profile_address = None,
          profile_role = customer, profile_is_blocked = Some False,
          profile_created_at = 10, profile_updated_at = 10\<rparr>],
      orders =
        []\<rparr>
   \<and> handle_new_user 11
     \<lparr>auth_user_id = 3, auth_user_email = Some ''new@example.com'',
      raw_user_meta_data = Some [(''full_name'', ''New Reader'')]\<rparr>
     \<lparr>auth_users =
        [\<lparr>auth_user_id = 1, auth_user_email = Some ''admin@admin.com'',
          raw_user_meta_data = Some [(''full_name'', ''Admin User'')]\<rparr>,
         \<lparr>auth_user_id = 3, auth_user_email = Some ''new@example.com'',
          raw_user_meta_data = Some [(''full_name'', ''New Reader'')]\<rparr>],
      profiles =
        [\<lparr>profile_id = 1, profile_email = ''admin@admin.com'',
          profile_full_name = Some ''Admin User'', profile_phone = None, profile_address = None,
          profile_role = admin, profile_is_blocked = Some False,
          profile_created_at = 0, profile_updated_at = 0\<rparr>,
         \<lparr>profile_id = 3, profile_email = ''new@example.com'',
          profile_full_name = Some ''New Reader'', profile_phone = None, profile_address = None,
          profile_role = customer, profile_is_blocked = Some False,
          profile_created_at = 10, profile_updated_at = 10\<rparr>],
      orders =
        []\<rparr>
   = Inl unique_violation"
  by (simp add: handle_new_user_def profiles_insert_def json_get_text_def)

text \<open>
  C3, as amended. When the trigger function has created the profile row of an identity,
  a second firing for the same identity raises \<open>unique_violation\<close> and writes nothing:
  the table holds exactly one row with that \<open>id\<close>, and no duplicate.
\<close>

theorem handle_new_user_twice:
  assumes "handle_new_user t1 new db = Inr db'"
  shows "handle_new_user t2 new db' = Inl unique_violation
    \<and> length (filter (\<lambda>p. profile_id p = auth_user_id new) (profiles db')) = 1"
proof -
  from assms obtain e where e: "auth_user_email new = Some e"
    by (auto simp: handle_new_user_def split: option.splits)
  define row where "row =
    \<lparr>profile_id = auth_user_id new, profile_email = e,
     profile_full_name =
       Some (coalesce (json_get_text (raw_user_meta_data new) ''full_name'') []),
     profile_phone = None, profile_address = None, profile_role = customer,
     profile_is_blocked = Some False,
     profile_created_at = t1, profile_updated_at = t1\<rparr>"
  have ins: "profiles_insert row db = Inr db'"
    using assms e by (simp add: handle_new_user_def row_def)
  have fresh: "auth_user_id new \<notin> set (map profile_id (profiles db))"
    using profiles_insert_Inr(1) [OF ins] by (simp add: row_def)
  have rows: "profiles db' = profiles db @ [row]"
    by (rule profiles_insert_Inr(2) [OF ins])
  from fresh have "\<forall>p\<in>set (profiles db). profile_id p \<noteq> auth_user_id new"
    by (auto simp: image_iff)
  then have old: "filter (\<lambda>p. profile_id p = auth_user_id new) (profiles db) = []"
    by (simp add: filter_empty_conv)
  have one: "filter (\<lambda>p. profile_id p = auth_user_id new) (profiles db') = [row]"
    using old by (simp add: rows row_def)
  have "auth_user_id new \<in> set (map profile_id (profiles db'))"
    by (simp add: rows row_def)
  then have again: "handle_new_user t2 new db' = Inl unique_violation"
    by (simp add: handle_new_user_def profiles_insert_def e)
  show ?thesis
    using again by (simp add: one)
qed

theorem handle_new_user_twice_witness:
  "handle_new_user 11
     \<lparr>auth_user_id = 3, auth_user_email = Some ''new@example.com'',
      raw_user_meta_data = Some [(''full_name'', ''New Reader'')]\<rparr>
     \<lparr>auth_users =
        [\<lparr>auth_user_id = 1, auth_user_email = Some ''admin@admin.com'',
          raw_user_meta_data = Some [(''full_name'', ''Admin User'')]\<rparr>,
         \<lparr>auth_user_id = 3, auth_user_email = Some ''new@example.com'',
          raw_user_meta_data = Some [(''full_name'', ''New Reader'')]\<rparr>],
      profiles =
        [\<lparr>profile_id = 1, profile_email = ''admin@admin.com'',
          profile_full_name = Some ''Admin User'', profile_phone = None, profile_address = None,
          profile_role = admin, profile_is_blocked = Some False,
          profile_created_at = 0, profile_updated_at = 0\<rparr>,
         \<lparr>profile_id = 3, profile_email = ''new@example.com'',
          profile_full_name = Some ''New Reader'', profile_phone = None, profile_address = None,
          profile_role = customer, profile_is_blocked = Some False,
          profile_created_at = 10, profile_updated_at = 10\<rparr>],
      orders =
        []\<rparr>
   = Inl unique_violation"
proof -
  have first: "handle_new_user 10
     \<lparr>auth_user_id = 3, auth_user_email = Some ''new@example.com'',
      raw_user_meta_data = Some [(''full_name'', ''New Reader'')]\<rparr>
     \<lparr>auth_users =
        [\<lparr>auth_user_id = 1, auth_user_email = Some ''admin@admin.com'',
          raw_user_meta_data = Some [(''full_name'', ''Admin User'')]\<rparr>,
         \<lparr>auth_user_id = 3, auth_user_email = Some ''new@example.com'',
          raw_user_meta_data = Some [(''full_name'', ''New Reader'')]\<rparr>],
      profiles =
        [\<lparr>profile_id = 1, profile_email = ''admin@admin.com'',
          profile_full_name = Some ''Admin User'', profile_phone = None, profile_address = None,
          profile_role = admin, profile_is_blocked = Some False,
          profile_created_at = 0, profile_updated_at = 0\<rparr>],
      orders =
        []\<rparr>
   = Inr
     \<lparr>auth_users =
        [\<lparr>auth_user_id = 1, auth_user_email = Some ''admin@admin.com'',
          raw_user_meta_data = Some [(''full_name'', ''Admin User'')]\<rparr>,
         \<lparr>auth_user_id = 3, auth_user_email = Some ''new@example.com'',
          raw_user_meta_data = Some [(''full_name'', ''New Reader'')]\<rparr>],
      profiles =
        [\<lparr>profile_id = 1, profile_email = ''admin@admin.com'',
          profile_full_name = Some ''Admin User'', profile_phone = None, profile_address = None,
          profile_role = admin, profile_is_blocked = Some False,
          profile_created_at = 0, profile_updated_at = 0\<rparr>,
         \<lparr>profile_id = 3, profile_email = ''new@example.com'',
          profile_full_name = Some ''New Reader'', profile_phone = None, profile_address = None,
          profile_role = customer, profile_is_blocked = Some False,
          profile_created_at = 10, profile_updated_at = 10\<rparr>],
      orders =
        []\<rparr>"
    by (simp add: handle_new_user_def profiles_insert_def json_get_text_def)
  show ?thesis
    using handle_new_user_twice [OF first, of 11] by simp
qed

end
